theory Spec2Isabelle
  imports Main "HOL-Library.Sublist" "HOL-Library.Word"
begin

section \<open>The kubeconfig rewrite of \<open>cmd/install.go\<close>\<close>

subsection \<open>The string replacer used by \<open>rewriteKubeconfig\<close>\<close>

text \<open>
  \<open>rewriteKubeconfig\<close> builds a \<open>strings.NewReplacer\<close> from three old/new pairs and calls
  \<open>Replace\<close>. The old strings are longer than one byte and there are three pairs, so the
  library selects its generic algorithm: the input is scanned from left to right; at each
  position the pair that comes first in argument order among those whose old string is a
  prefix of the remaining input is taken, its new string is written and the scan resumes
  after the old string; where no pair matches, one byte is copied. An empty old string
  matches everywhere, but not twice in a row at the same position (\<open>prevMatchEmpty\<close>).
\<close>

definition lookup :: "(string \<times> string) list \<Rightarrow> string \<Rightarrow> bool \<Rightarrow> (string \<times> string) option" where
  "lookup oldnew s ignoreRoot =
     find (\<lambda>(old, new). prefix old s \<and> \<not> (ignoreRoot \<and> old = [])) oldnew"

function replace_from :: "(string \<times> string) list \<Rightarrow> string \<Rightarrow> bool \<Rightarrow> string" where
  "replace_from oldnew s prevMatchEmpty =
     (case lookup oldnew s prevMatchEmpty of
        Some (old, new) \<Rightarrow> new @ replace_from oldnew (drop (length old) s) (old = [])
      | None \<Rightarrow> (case s of [] \<Rightarrow> [] | c # cs \<Rightarrow> c # replace_from oldnew cs False))"
  by pat_completeness auto
termination
  apply (relation "measure (\<lambda>(oldnew, s, b). 2 * length s + (if b then 0 else 1))")
    apply simp
   apply (auto simp: lookup_def find_Some_iff prefix_def neq_Nil_conv)
  done

declare replace_from.simps [simp del]

definition Replace :: "(string \<times> string) list \<Rightarrow> string \<Rightarrow> string" where
  "Replace oldnew s = replace_from oldnew s False"

subsection \<open>\<open>rewriteKubeconfig\<close> (install.go, lines 419-431)\<close>

definition rewriteKubeconfig :: "string \<Rightarrow> string \<Rightarrow> string \<Rightarrow> string" where
  "rewriteKubeconfig kubeconfig ip context =
     (let context = (if context = [] then ''default'' else context);
          kubeconfigReplacer = [(''127.0.0.1'', ip), (''localhost'', ip), (''default'', context)]
      in Replace kubeconfigReplacer kubeconfig)"

subsection \<open>Describing the result of the rewrite\<close>

text \<open>
  The three placeholder tokens of the source, named so that proofs can treat them as opaque.
\<close>

definition tok_loopback :: string where
  "tok_loopback = ''127.0.0.1''"

definition tok_localhost :: string where
  "tok_localhost = ''localhost''"

definition tok_default :: string where
  "tok_default = ''default''"

text \<open>
  A document seen as a sequence of segments: a stretch of bytes that is copied, or one
  occurrence of a token. \<open>source_of\<close> gives the bytes a segment stands for in the input and
  \<open>result_of\<close> the bytes written for it.
\<close>

datatype seg = Copied string | Loopback | Localhost | DefaultCtx

fun source_of :: "seg \<Rightarrow> string" where
  "source_of (Copied t) = t"
| "source_of Loopback = tok_loopback"
| "source_of Localhost = tok_localhost"
| "source_of DefaultCtx = tok_default"

fun result_of :: "string \<Rightarrow> string \<Rightarrow> seg \<Rightarrow> string" where
  "result_of ip ctx (Copied t) = t"
| "result_of ip ctx Loopback = ip"
| "result_of ip ctx Localhost = ip"
| "result_of ip ctx DefaultCtx = ctx"

text \<open>\<open>match_at s\<close>: one of the three tokens starts at the first byte of \<open>s\<close>.\<close>

definition match_at :: "string \<Rightarrow> bool" where
  "match_at s = (prefix tok_loopback s \<or> prefix tok_localhost s \<or> prefix tok_default s)"

fun keep :: "char \<Rightarrow> seg list \<Rightarrow> seg list" where
  "keep c (Copied t # segs) = Copied (c # t) # segs"
| "keep c segs = Copied [c] # segs"

text \<open>
  The segmentation of a document, read off from left to right: the leftmost token
  occurrence, then the leftmost one after it, and so on; the bytes in between are copied.
\<close>

function segments :: "string \<Rightarrow> seg list" where
  "segments s =
     (if prefix tok_loopback s then Loopback # segments (drop (length tok_loopback) s)
      else if prefix tok_localhost s then Localhost # segments (drop (length tok_localhost) s)
      else if prefix tok_default s then DefaultCtx # segments (drop (length tok_default) s)
      else (case s of [] \<Rightarrow> [] | c # cs \<Rightarrow> keep c (segments cs)))"
  by pat_completeness auto
termination
  by (relation "measure length")
     (auto simp: prefix_def tok_loopback_def tok_localhost_def tok_default_def)

declare segments.simps [simp del]

text \<open>
  \<open>unmatched u rest\<close>: in the text \<open>u @ rest\<close>, no token starts at a position inside \<open>u\<close>.
\<close>

fun unmatched :: "string \<Rightarrow> string \<Rightarrow> bool" where
  "unmatched [] rest = True"
| "unmatched (c # cs) rest = (\<not> match_at (c # cs @ rest) \<and> unmatched cs rest)"

fun all_unmatched :: "seg list \<Rightarrow> bool" where
  "all_unmatched [] = True"
| "all_unmatched (Copied t # segs) =
     (unmatched t (concat (map source_of segs)) \<and> all_unmatched segs)"
| "all_unmatched (_ # segs) = all_unmatched segs"

text \<open>\<open>has_token t\<close>: one of the three tokens occurs somewhere in \<open>t\<close>.\<close>

definition has_token :: "string \<Rightarrow> bool" where
  "has_token t = (sublist tok_loopback t \<or> sublist tok_localhost t \<or> sublist tok_default t)"

fun copied_token_free :: "seg list \<Rightarrow> bool" where
  "copied_token_free [] = True"
| "copied_token_free (Copied t # segs) = (\<not> has_token t \<and> copied_token_free segs)"
| "copied_token_free (_ # segs) = copied_token_free segs"

section \<open>The installer's environment\<close>

text \<open>
  The remaining functions of \<open>cmd/install.go\<close> act on the local file system, the SSH agent
  socket, the terminal and external programs. They are modelled by explicit state
  passing: a \<open>world\<close> holds what the functions change (files, open agent connections) and
  the trace of their input/output steps; an \<open>env\<close> holds what the surroundings answer
  (whether the agent socket can be dialled, what the key parsers of the SSH library
  return, whether a write or a removal fails, what the merge tool prints). Printing to
  standard output and open file descriptors are not modelled.
\<close>

type_synonym path = string

type_synonym FileMode = "32 word"

record inode =
  content :: string
  mode :: FileMode

text \<open>
  The errors of the functions, named as the specification names them. The source builds
  them as messages: \<open>AgentUnreachable\<close> is "unable to reach SSH Agent", \<open>KeyReadError\<close> is
  "unable to read file", \<open>KeyParseError\<close> is "unable to parse private key",
  \<open>PassphraseParseError\<close> is "parse private key with passphrase failed", \<open>ConnectError\<close> is
  "unable to connect to ... over ssh", \<open>ExecutionError\<close> is "error received processing
  command" (or the operator's own error), \<open>TempFileError\<close> is "Could not generate a
  temporary file", \<open>PersistError\<close> is the error of \<open>ioutil.WriteFile\<close>, \<open>MergeToolError\<close> is
  "Could not merge kubeconfigs" and \<open>TempCleanupError\<close> is "Could not remove temporary
  kubeconfig file".
\<close>

datatype error =
    AgentUnreachable
  | KeyReadError
  | KeyParseError
  | PassphraseParseError
  | ConnectError
  | ExecutionError
  | TempFileError
  | PersistError
  | MergeToolError
  | TempCleanupError

text \<open>\<open>agent.Key\<close>, an identity held by the SSH agent.\<close>

record agent_key =
  Format :: string
  Blob :: string
  Comment :: string

text \<open>
  The outcome of \<open>ssh.ParsePrivateKey\<close>: a signer, the error
  \<open>*ssh.PassphraseMissingError\<close>, or any other error.
\<close>

datatype 'sg parse_result = Parsed 'sg | PassphraseMissing | ParseFailure

text \<open>
  An \<open>ssh.AuthMethod\<close>: \<open>ssh.PublicKeysCallback\<close> over the signers of the agent client on a
  connection, or \<open>ssh.PublicKeys\<close> of a parsed signer.
\<close>

datatype 'sg auth = AgentSigners nat | PublicKeys 'sg

text \<open>
  The close functions that \<open>sshAgent\<close> and \<open>loadAuthMethod\<close> return: the function that does
  nothing, or the \<open>Close\<close> method of an agent connection.
\<close>

datatype closeFn = NoopClose | AgentConnClose nat

datatype operator = ExecOperator | SSHOperator

record exec_result =
  StdOut :: string
  StdErr :: string

datatype event =
    DialAgent
  | AgentList nat
  | ReadFile path
  | ReadPassword path
  | ConnClose nat
  | SSHConnect string int
  | Execute operator string
  | OperatorClose

record ('sg, 'pk) env =
  agent_socket :: bool
  agent_identities :: "agent_key list option"
  parsePrivateKey :: "string \<Rightarrow> 'sg parse_result"
  parsePrivateKeyWithPassphrase :: "string \<Rightarrow> string \<Rightarrow> 'sg option"
  parseAuthorizedKey :: "string \<Rightarrow> 'pk option"
  marshal :: "'pk \<Rightarrow> string"
  password_input :: string
  home_dir :: "string option"
  path_join :: "string \<Rightarrow> string \<Rightarrow> string"
  abs_path :: "path \<Rightarrow> path option"
  umask :: FileMode
  temp_candidates :: "path list"
  write_fails :: "path \<Rightarrow> bool"
  remove_fails :: "path \<Rightarrow> bool"
  kubectl :: "string \<Rightarrow> (path \<Rightarrow> inode option) \<Rightarrow> string option"
  ssh_connect :: "string \<Rightarrow> int \<Rightarrow> 'sg auth option \<Rightarrow> bool"
  run_command :: "operator \<Rightarrow> string \<Rightarrow> exec_result option"

record world =
  fs :: "path \<Rightarrow> inode option"
  open_conns :: "nat list"
  next_conn :: nat
  trace :: "event list"

definition log_event :: "event \<Rightarrow> world \<Rightarrow> world" where
  "log_event e w = w\<lparr>trace := trace w @ [e]\<rparr>"

subsection \<open>Library calls\<close>

text \<open>
  \<open>net.Dial("unix", os.Getenv("SSH_AUTH_SOCK"))\<close>: an error, or a new open connection.
\<close>

definition dialAgent :: "('sg, 'pk) env \<Rightarrow> world \<Rightarrow> nat option \<times> world" where
  "dialAgent env w =
     (let w1 = log_event DialAgent w in
      if agent_socket env
      then (Some (next_conn w1),
            w1\<lparr>open_conns := next_conn w1 # open_conns w1, next_conn := Suc (next_conn w1)\<rparr>)
      else (None, w1))"

text \<open>\<open>sshAgent.List()\<close>; the source drops its error, and the keys are then \<open>nil\<close>.\<close>

definition agentList :: "('sg, 'pk) env \<Rightarrow> nat \<Rightarrow> world \<Rightarrow> agent_key list \<times> world" where
  "agentList env conn w =
     (case agent_identities env of None \<Rightarrow> [] | Some keys \<Rightarrow> keys, log_event (AgentList conn) w)"

text \<open>\<open>ioutil.ReadFile\<close>; a file that cannot be read is one the file system does not hold.\<close>

definition readFile :: "path \<Rightarrow> world \<Rightarrow> string option \<times> world" where
  "readFile name w = (map_option content (fs w name), log_event (ReadFile name) w)"

text \<open>
  \<open>terminal.ReadPassword\<close>, after the prompt is printed; the source drops its error and
  uses the bytes it returned.
\<close>

definition readPassword :: "('sg, 'pk) env \<Rightarrow> path \<Rightarrow> world \<Rightarrow> string \<times> world" where
  "readPassword env privateKeyPath w = (password_input env, log_event (ReadPassword privateKeyPath) w)"

text \<open>Calling a close function.\<close>

fun run_close :: "closeFn \<Rightarrow> world \<Rightarrow> world" where
  "run_close NoopClose w = w"
| "run_close (AgentConnClose conn) w =
     log_event (ConnClose conn) (w\<lparr>open_conns := removeAll conn (open_conns w)\<rparr>)"

text \<open>
  \<open>filepath.Abs\<close>; the source drops its error, and the path is then empty.
\<close>

definition Abs :: "('sg, 'pk) env \<Rightarrow> path \<Rightarrow> path" where
  "Abs env name = (case abs_path env name of None \<Rightarrow> [] | Some a \<Rightarrow> a)"

text \<open>
  \<open>ioutil.WriteFile(name, data, perm)\<close>: a file that does not exist is created with the
  permissions \<open>perm\<close> less the bits of the process's umask; a file that exists is truncated
  and written, and keeps its permissions. A failing write is modelled as one that fails
  before it changes anything.
\<close>

definition WriteFile :: "('sg, 'pk) env \<Rightarrow> path \<Rightarrow> string \<Rightarrow> FileMode \<Rightarrow> world \<Rightarrow> error option \<times> world" where
  "WriteFile env name data perm w =
     (if write_fails env name then (Some PersistError, w)
      else (None,
            w\<lparr>fs := (fs w)(name \<mapsto>
               \<lparr>content = data,
                mode = (case fs w name of None \<Rightarrow> and perm (not (umask env)) | Some f \<Rightarrow> mode f)\<rparr>)\<rparr>))"

text \<open>
  \<open>ioutil.TempFile(os.TempDir(), "k3s-temp-*")\<close>: the library tries names until one does
  not exist, and creates that file, empty, with mode 0600 (384) less the umask.
\<close>

definition TempFile :: "('sg, 'pk) env \<Rightarrow> world \<Rightarrow> path option \<times> world" where
  "TempFile env w =
     (case find (\<lambda>name. fs w name = None) (temp_candidates env) of
        None \<Rightarrow> (None, w)
      | Some name \<Rightarrow>
          (Some name,
           w\<lparr>fs := (fs w)(name \<mapsto> \<lparr>content = [], mode = and 384 (not (umask env))\<rparr>)\<rparr>))"

text \<open>\<open>os.Remove\<close>: fails on a name that does not exist, or when the system refuses.\<close>

definition Remove :: "('sg, 'pk) env \<Rightarrow> path \<Rightarrow> world \<Rightarrow> bool \<times> world" where
  "Remove env name w =
     (if fs w name = None \<or> remove_fails env name then (False, w)
      else (True, w\<lparr>fs := (fs w)(name := None)\<rparr>))"

text \<open>
  \<open>homedir.Expand\<close> of the go-homedir library, whose error \<open>expandPath\<close> drops.
\<close>

fun homedir_Expand :: "('sg, 'pk) env \<Rightarrow> string \<Rightarrow> string option" where
  "homedir_Expand env [] = Some []"
| "homedir_Expand env (c # cs) =
     (if c \<noteq> CHR ''~'' then Some (c # cs)
      else if cs \<noteq> [] \<and> hd cs \<noteq> CHR ''/'' \<and> hd cs \<noteq> CHR 0x5C then None
      else (case home_dir env of None \<Rightarrow> None | Some dir \<Rightarrow> Some (path_join env dir cs)))"

subsection \<open>The command operator\<close>

text \<open>
  Modelled from the spec: package \<open>pkg/operator\<close> (\<open>ExecOperator\<close>, \<open>NewSSHOperator\<close>,
  \<open>Execute\<close>, \<open>Close\<close>) is not among the sources. By the specification an operator executes
  a command string and captures its two output streams, or fails; the remote variant is
  opened by one connection to an address with the authentication method, and closed once.
  The commands' own effects on the machine are outside the model.
\<close>

definition execute :: "('sg, 'pk) env \<Rightarrow> operator \<Rightarrow> string \<Rightarrow> world \<Rightarrow> exec_result option \<times> world" where
  "execute env op command w = (run_command env op command, log_event (Execute op command) w)"

definition NewSSHOperator ::
    "('sg, 'pk) env \<Rightarrow> string \<Rightarrow> int \<Rightarrow> 'sg auth option \<Rightarrow> world \<Rightarrow> operator option \<times> world" where
  "NewSSHOperator env ip port authMethod w =
     (if ssh_connect env ip port authMethod then Some SSHOperator else None,
      log_event (SSHConnect ip port) w)"

fun operator_Close :: "operator \<Rightarrow> world \<Rightarrow> world" where
  "operator_Close ExecOperator w = w"
| "operator_Close SSHOperator w = log_event OperatorClose w"

section \<open>The functions of \<open>cmd/install.go\<close>\<close>

subsection \<open>\<open>writeConfig\<close> (lines 285-296)\<close>

definition writeConfig ::
    "('sg, 'pk) env \<Rightarrow> path \<Rightarrow> string \<Rightarrow> bool \<Rightarrow> world \<Rightarrow> error option \<times> world" where
  "writeConfig env name data suppressMessage w =
     (let absPath = Abs env name
      in WriteFile env absPath data 384 w)"

subsection \<open>\<open>mergeConfigs\<close> (lines 298-330)\<close>

definition mergeConfigs ::
    "('sg, 'pk) env \<Rightarrow> path \<Rightarrow> string \<Rightarrow> world \<Rightarrow> (error + string) \<times> world" where
  "mergeConfigs env localKubeconfigPath k3sconfig w =
     (case TempFile env w of
        (None, w1) \<Rightarrow> (Inl TempFileError, w1)
      | (Some name, w1) \<Rightarrow>
          (case writeConfig env name k3sconfig True w1 of
             (Some writeErr, w2) \<Rightarrow> (Inl writeErr, w2)
           | (None, w2) \<Rightarrow>
               (let appendKubeConfigENV = ''KUBECONFIG='' @ localKubeconfigPath @ '':'' @ name
                in case kubectl env appendKubeConfigENV (fs w2) of
                     None \<Rightarrow> (Inl MergeToolError, w2)
                   | Some data \<Rightarrow>
                       (case Remove env name w2 of
                          (False, w3) \<Rightarrow> (Inl TempCleanupError, w3)
                        | (True, w3) \<Rightarrow> (Inr data, w3)))))"

subsection \<open>\<open>obtainKubeconfig\<close> (lines 255-282)\<close>

definition obtainKubeconfig ::
    "('sg, 'pk) env \<Rightarrow> operator \<Rightarrow> string \<Rightarrow> string \<Rightarrow> string \<Rightarrow> path \<Rightarrow> bool \<Rightarrow> world
      \<Rightarrow> error option \<times> world" where
  "obtainKubeconfig env op getConfigcommand ip context localKubeconfig merge w =
     (case execute env op getConfigcommand w of
        (None, w1) \<Rightarrow> (Some ExecutionError, w1)
      | (Some res, w1) \<Rightarrow>
          (let absPath = Abs env localKubeconfig;
               kubeconfig = rewriteKubeconfig (StdOut res) ip context
           in if merge
              then (case mergeConfigs env absPath kubeconfig w1 of
                      (Inl err, w2) \<Rightarrow> (Some err, w2)
                    | (Inr merged, w2) \<Rightarrow> writeConfig env absPath merged False w2)
              else writeConfig env absPath kubeconfig False w1))"

subsection \<open>\<open>expandPath\<close> (lines 332-335)\<close>

definition expandPath :: "('sg, 'pk) env \<Rightarrow> string \<Rightarrow> string" where
  "expandPath env name = (case homedir_Expand env name of None \<Rightarrow> [] | Some res \<Rightarrow> res)"

subsection \<open>\<open>sshAgent\<close> (lines 337-364)\<close>

text \<open>The loop over the agent's keys: is there one whose blob equals the parsed key?\<close>

fun blob_matches :: "agent_key list \<Rightarrow> string \<Rightarrow> bool" where
  "blob_matches [] parsedkey = False"
| "blob_matches (key # keys) parsedkey =
     (if Blob key = parsedkey then True else blob_matches keys parsedkey)"

definition sshAgent ::
    "('sg, 'pk) env \<Rightarrow> path \<Rightarrow> world \<Rightarrow> ('sg auth option \<times> closeFn) \<times> world" where
  "sshAgent env publicKeyPath w =
     (case dialAgent env w of
        (Some sshAgentConn, w1) \<Rightarrow>
          (case agentList env sshAgentConn w1 of
             (keys, w2) \<Rightarrow>
               if length keys = 0 then ((None, AgentConnClose sshAgentConn), w2)
               else (case readFile publicKeyPath w2 of
                       (None, w3) \<Rightarrow> ((None, AgentConnClose sshAgentConn), w3)
                     | (Some pubkey, w3) \<Rightarrow>
                         (case parseAuthorizedKey env pubkey of
                            None \<Rightarrow> ((None, AgentConnClose sshAgentConn), w3)
                          | Some authkey \<Rightarrow>
                              (let parsedkey = marshal env authkey
                               in if blob_matches keys parsedkey
                                  then ((Some (AgentSigners sshAgentConn),
                                         AgentConnClose sshAgentConn), w3)
                                  else ((None, NoopClose), w3)))))
      | (None, w1) \<Rightarrow> ((None, NoopClose), w1))"

subsection \<open>\<open>loadAuthMethod\<close> (lines 366-417)\<close>

definition loadAuthMethod ::
    "('sg, 'pk) env \<Rightarrow> path \<Rightarrow> world \<Rightarrow> ('sg auth option \<times> closeFn \<times> error option) \<times> world" where
  "loadAuthMethod env privateKeyPath w =
     (if privateKeyPath = []
      then (case dialAgent env w of
              (None, w1) \<Rightarrow> ((None, NoopClose, Some AgentUnreachable), w1)
            | (Some sshAgentConn, w1) \<Rightarrow>
                ((Some (AgentSigners sshAgentConn), AgentConnClose sshAgentConn, None), w1))
      else (case readFile privateKeyPath w of
              (None, w1) \<Rightarrow> ((None, NoopClose, Some KeyReadError), w1)
            | (Some key, w1) \<Rightarrow>
                (case parsePrivateKey env key of
                   Parsed signer \<Rightarrow> ((Some (PublicKeys signer), NoopClose, None), w1)
                 | ParseFailure \<Rightarrow> ((None, NoopClose, Some KeyParseError), w1)
                 | PassphraseMissing \<Rightarrow>
                     (case sshAgent env (privateKeyPath @ ''.pub'') w1 of
                        ((Some agent, close), w2) \<Rightarrow> ((Some agent, close, None), w2)
                      | ((None, close), w2) \<Rightarrow>
                          (case readPassword env privateKeyPath w2 of
                             (bytePassword, w3) \<Rightarrow>
                               (case parsePrivateKeyWithPassphrase env key bytePassword of
                                  None \<Rightarrow>
                                    ((None, NoopClose, Some PassphraseParseError),
                                     run_close close w3)
                                | Some signer \<Rightarrow>
                                    ((Some (PublicKeys signer), NoopClose, None),
                                     run_close close w3)))))))"

subsection \<open>The run function of \<open>MakeInstall\<close> (lines 155-237)\<close>

text \<open>
  The flags the run function has read, and the two command strings it has built from
  them (lines 69-153), when it reaches the choice between a local and a remote install.
\<close>

record install_flags =
  flag_local :: bool
  flag_skip_install :: bool
  flag_print_command :: bool
  flag_merge :: bool
  flag_ip :: string
  flag_ssh_port :: int
  flag_user :: string
  flag_ssh_key :: string
  flag_context :: string
  flag_local_path :: string
  install_command :: string
  get_config_command :: string

definition runInstall :: "('sg, 'pk) env \<Rightarrow> install_flags \<Rightarrow> world \<Rightarrow> error option \<times> world" where
  "runInstall env fl w =
     (if flag_local fl
      then (case execute env ExecOperator (install_command fl) w of
              (None, w1) \<Rightarrow> (Some ExecutionError, w1)
            | (Some res, w1) \<Rightarrow>
                obtainKubeconfig env ExecOperator (get_config_command fl) (flag_ip fl)
                  (flag_context fl) (flag_local_path fl) (flag_merge fl) w1)
      else (let sshKeyPath = expandPath env (flag_ssh_key fl)
            in case loadAuthMethod env sshKeyPath w of
                 ((authMethod, closeSSHAgent, Some err), w1) \<Rightarrow> (Some err, w1)
               | ((authMethod, closeSSHAgent, None), w1) \<Rightarrow>
                   (case NewSSHOperator env (flag_ip fl) (flag_ssh_port fl) authMethod w1 of
                      (None, w2) \<Rightarrow> (Some ConnectError, run_close closeSSHAgent w2)
                    | (Some op, w2) \<Rightarrow>
                        (case (if \<not> flag_skip_install fl
                               then (case execute env op (install_command fl) w2 of
                                       (None, w3) \<Rightarrow> (Some ExecutionError, w3)
                                     | (Some res, w3) \<Rightarrow>
                                         obtainKubeconfig env op (get_config_command fl)
                                           (flag_ip fl) (flag_context fl) (flag_local_path fl)
                                           (flag_merge fl) w3)
                               else obtainKubeconfig env op (get_config_command fl) (flag_ip fl)
                                      (flag_context fl) (flag_local_path fl) (flag_merge fl) w2) of
                           (r, w4) \<Rightarrow> (r, run_close closeSSHAgent (operator_Close op w4))))))"

section \<open>Notions used to state the properties\<close>

text \<open>The input/output steps made between the world \<open>w\<close> and a later world \<open>w'\<close>.\<close>

definition new_events :: "world \<Rightarrow> world \<Rightarrow> event list" where
  "new_events w w' = drop (length (trace w)) (trace w')"

fun is_prompt :: "event \<Rightarrow> bool" where
  "is_prompt (ReadPassword name) = True"
| "is_prompt e = False"

fun is_connect :: "event \<Rightarrow> bool" where
  "is_connect (SSHConnect ip port) = True"
| "is_connect e = False"

fun is_dial :: "event \<Rightarrow> bool" where
  "is_dial DialAgent = True"
| "is_dial e = False"

text \<open>
  \<open>agent_offers env publicKeyPath w\<close>: the agent can be dialled, it lists at least one
  identity, the public-key file can be read and parsed, and the binary form of the parsed
  key is equal, byte for byte, to the blob of one of the identities.
\<close>

definition agent_offers :: "('sg, 'pk) env \<Rightarrow> path \<Rightarrow> world \<Rightarrow> bool" where
  "agent_offers env publicKeyPath w =
     (agent_socket env \<and>
      (case agent_identities env of
         None \<Rightarrow> False
       | Some keys \<Rightarrow>
           keys \<noteq> [] \<and>
           (case fs w publicKeyPath of
              None \<Rightarrow> False
            | Some f \<Rightarrow>
                (case parseAuthorizedKey env (content f) of
                   None \<Rightarrow> False
                 | Some authkey \<Rightarrow> marshal env authkey \<in> Blob ` set keys))))"

text \<open>
  The steps of the agent fallback, in their order: dial; if that succeeded, list the
  identities; if there are any, read the public-key file.
\<close>

definition fallback_steps :: "('sg, 'pk) env \<Rightarrow> path \<Rightarrow> world \<Rightarrow> event list" where
  "fallback_steps env publicKeyPath w =
     DialAgent #
     (if agent_socket env
      then AgentList (next_conn w) #
           (if agent_identities env = None \<or> agent_identities env = Some [] then []
            else [ReadFile publicKeyPath])
      else [])"

text \<open>
  What \<open>loadAuthMethod\<close> returns after the passphrase prompt, from the outcome of
  \<open>ssh.ParsePrivateKeyWithPassphrase\<close>.
\<close>

definition after_prompt :: "'sg option \<Rightarrow> 'sg auth option \<times> closeFn \<times> error option" where
  "after_prompt parsed =
     (case parsed of
        None \<Rightarrow> (None, NoopClose, Some PassphraseParseError)
      | Some signer \<Rightarrow> (Some (PublicKeys signer), NoopClose, None))"

section \<open>An example environment\<close>

text \<open>
  A concrete environment and world, on which the properties below are evaluated: a
  passphrase-protected key \<open>id_rsa\<close> with its public key, a damaged key file, an existing
  kubeconfig with mode 0644 (420), an agent that cannot be reached, umask 022 (18).
\<close>

definition example_env :: "(string, string) env" where
  "example_env =
     \<lparr>agent_socket = False,
      agent_identities = None,
      parsePrivateKey = (\<lambda>key. if key = ''plain key'' then Parsed ''signer''
                               else if key = ''locked key'' then PassphraseMissing
                               else ParseFailure),
      parsePrivateKeyWithPassphrase =
        (\<lambda>key passphrase. if key = ''locked key'' \<and> passphrase = ''secret''
                           then Some ''signer'' else None),
      parseAuthorizedKey = (\<lambda>line. if line = ''ssh-rsa AAAA'' then Some ''AAAA'' else None),
      marshal = (\<lambda>authkey. authkey),
      password_input = ''secret'',
      home_dir = Some ''/home/u'',
      path_join = (\<lambda>dir name. dir @ name),
      abs_path = (\<lambda>name. Some name),
      umask = 18,
      temp_candidates = [''/tmp/k3s-temp-1''],
      write_fails = (\<lambda>name. False),
      remove_fails = (\<lambda>name. False),
      kubectl = (\<lambda>kubeconfigs files. Some ''merged document''),
      ssh_connect = (\<lambda>ip port authMethod. True),
      run_command = (\<lambda>op command. Some \<lparr>StdOut = ''server: https://127.0.0.1:6443'', StdErr = []\<rparr>)\<rparr>"

definition example_world :: world where
  "example_world =
     \<lparr>fs = [''/home/u/.ssh/id_rsa'' \<mapsto> \<lparr>content = ''locked key'', mode = 384\<rparr>,
            ''/home/u/.ssh/id_rsa.pub'' \<mapsto> \<lparr>content = ''ssh-rsa AAAA'', mode = 420\<rparr>,
            ''/home/u/.ssh/damaged'' \<mapsto> \<lparr>content = ''not a key'', mode = 384\<rparr>,
            ''/home/u/.kube/config'' \<mapsto> \<lparr>content = ''old document'', mode = 420\<rparr>],
      open_conns = [],
      next_conn = 0,
      trace = []\<rparr>"

definition example_flags :: install_flags where
  "example_flags =
     \<lparr>flag_local = False, flag_skip_install = False, flag_print_command = False,
      flag_merge = False, flag_ip = ''203.0.113.5'', flag_ssh_port = 22, flag_user = ''root'',
      flag_ssh_key = [], flag_context = ''default'', flag_local_path = ''kubeconfig'',
      install_command = ''install'', get_config_command = ''sudo cat /etc/rancher/k3s/k3s.yaml''\<rparr>"

section \<open>Properties of the rewrite\<close>

lemma source_keep: "concat (map source_of (keep c segs)) = c # concat (map source_of segs)"
  by (cases "(c, segs)" rule: keep.cases) auto

lemma result_keep:
  "concat (map (result_of ip ctx) (keep c segs)) = c # concat (map (result_of ip ctx) segs)"
  by (cases "(c, segs)" rule: keep.cases) auto

lemma prefix_drop: "prefix t s \<Longrightarrow> t @ drop (length t) s = s"
  by (auto simp: prefix_def)

lemma source_segments: "concat (map source_of (segments s)) = s"
proof (induction s rule: segments.induct)
  case (1 s)
  show ?case
    by (subst segments.simps) (auto simp: 1 prefix_drop source_keep split: list.splits)
qed

lemma tok_nonempty: "tok_loopback \<noteq> []" "tok_localhost \<noteq> []" "tok_default \<noteq> []"
  by (simp_all add: tok_loopback_def tok_localhost_def tok_default_def)

lemma lookup_kube:
  "lookup [(tok_loopback, ip), (tok_localhost, ip), (tok_default, ctx)] s b =
     (if prefix tok_loopback s then Some (tok_loopback, ip)
      else if prefix tok_localhost s then Some (tok_localhost, ip)
      else if prefix tok_default s then Some (tok_default, ctx) else None)"
  by (simp add: lookup_def tok_nonempty)

lemma replace_segments:
  "replace_from [(tok_loopback, ip), (tok_localhost, ip), (tok_default, ctx)] s b =
     concat (map (result_of ip ctx) (segments s))"
proof (induction s arbitrary: b rule: segments.induct)
  case (1 s)
  show ?case
    by (subst replace_from.simps, subst segments.simps)
       (simp add: lookup_kube 1 result_keep split: list.splits)
qed

lemma rewrite_replace_from:
  "rewriteKubeconfig doc ip ctx =
     replace_from [(tok_loopback, ip), (tok_localhost, ip),
                   (tok_default, if ctx = [] then ''default'' else ctx)] doc False"
  by (simp add: rewriteKubeconfig_def Replace_def tok_loopback_def tok_localhost_def
      tok_default_def Let_def)

lemma all_unmatched_keep:
  "\<not> match_at (c # concat (map source_of segs)) \<Longrightarrow> all_unmatched segs
     \<Longrightarrow> all_unmatched (keep c segs)"
  by (cases "(c, segs)" rule: keep.cases) auto

lemma all_unmatched_segments: "all_unmatched (segments s)"
proof (induction s rule: segments.induct)
  case (1 s)
  show ?case
  proof (cases "match_at s")
    case True
    with 1 show ?thesis
      by (subst segments.simps) (auto simp: match_at_def)
  next
    case False
    show ?thesis
    proof (cases s)
      case Nil
      with False show ?thesis
        by (subst segments.simps) (simp add: match_at_def)
    next
      case (Cons c cs)
      with False 1 have "all_unmatched (segments cs)"
        by (simp add: match_at_def)
      moreover from False Cons have "\<not> match_at (c # concat (map source_of (segments cs)))"
        by (simp add: source_segments)
      ultimately have "all_unmatched (keep c (segments cs))"
        by (rule all_unmatched_keep [rotated])
      with False Cons show ?thesis
        by (subst segments.simps) (simp add: match_at_def)
    qed
  qed
qed

lemma unmatched_append: "unmatched (pre @ u) rest \<Longrightarrow> unmatched u rest"
  by (induction pre) auto

lemma unmatched_no_match:
  "unmatched (tok @ suf) rest \<Longrightarrow> tok \<noteq> [] \<Longrightarrow> \<not> match_at (tok @ suf @ rest)"
  by (cases tok) auto

lemma unmatched_no_sublist:
  assumes "unmatched t rest" and "tok \<in> {tok_loopback, tok_localhost, tok_default}"
  shows "\<not> sublist tok t"
proof
  assume "sublist tok t"
  then obtain pre suf where t: "t = pre @ tok @ suf"
    by (auto simp: sublist_def)
  from assms(2) have ne: "tok \<noteq> []"
    using tok_nonempty by auto
  from assms(1) t have "unmatched (tok @ suf) rest"
    using unmatched_append [of pre "tok @ suf" rest] by simp
  then have "\<not> match_at (tok @ suf @ rest)"
    using ne by (rule unmatched_no_match)
  with assms(2) show False
    by (auto simp: match_at_def)
qed

lemma unmatched_token_free: "unmatched t rest \<Longrightarrow> \<not> has_token t"
  using unmatched_no_sublist [of t rest] by (auto simp: has_token_def)

lemma all_unmatched_token_free: "all_unmatched segs \<Longrightarrow> copied_token_free segs"
  by (induction segs rule: all_unmatched.induct) (auto simp: unmatched_token_free)

lemma replace_unmatched_prefix:
  "unmatched u rest \<Longrightarrow>
   replace_from [(tok_loopback, ip), (tok_localhost, ip), (tok_default, ctx)] (u @ rest) b =
     u @ replace_from [(tok_loopback, ip), (tok_localhost, ip), (tok_default, ctx)] rest False"
proof (induction u arbitrary: b)
  case Nil
  show ?case
    by (subst replace_from.simps, subst (2) replace_from.simps) (simp add: lookup_kube)
next
  case (Cons c cs)
  then show ?case
    by (subst replace_from.simps) (simp add: lookup_kube match_at_def)
qed

lemma replace_token:
  "replace_from [(tok_loopback, ip), (tok_localhost, ip), (tok_default, ctx)] (tok_loopback @ v) b =
     ip @ replace_from [(tok_loopback, ip), (tok_localhost, ip), (tok_default, ctx)] v False"
  "replace_from [(tok_loopback, ip), (tok_localhost, ip), (tok_default, ctx)] (tok_localhost @ v) b =
     ip @ replace_from [(tok_loopback, ip), (tok_localhost, ip), (tok_default, ctx)] v False"
  "replace_from [(tok_loopback, ip), (tok_localhost, ip), (tok_default, ctx)] (tok_default @ v) b =
     ctx @ replace_from [(tok_loopback, ip), (tok_localhost, ip), (tok_default, ctx)] v False"
    apply (subst replace_from.simps, simp add: lookup_kube tok_nonempty)
   apply (subst replace_from.simps, simp add: lookup_kube tok_nonempty)
   apply (simp add: tok_loopback_def tok_localhost_def)
  apply (subst replace_from.simps, simp add: lookup_kube tok_nonempty)
  apply (simp add: tok_loopback_def tok_localhost_def tok_default_def)
  done

text \<open>
  Claim C3, as amended. For every document, target address and context name, the rewrite
  is described by the left-to-right segmentation of the document into token occurrences
  and copied stretches: the segments put together give back the document; the output is
  the same sequence with each \<open>127.0.0.1\<close> and \<open>localhost\<close> segment replaced by the target
  address and each \<open>default\<close> segment by the context name (by \<open>default\<close> when the context
  name is empty), every other byte unchanged; and no copied stretch contains one of the
  three tokens. Nothing is promised about tokens in the output as a whole: a replacement
  value can bring them in.
\<close>

theorem rewrite_decomposition:
  "concat (map source_of (segments doc)) = doc
   \<and> rewriteKubeconfig doc ip context =
       concat (map (result_of ip (if context = [] then ''default'' else context)) (segments doc))
   \<and> copied_token_free (segments doc)"
  by (simp add: source_segments rewrite_replace_from replace_segments
      all_unmatched_token_free all_unmatched_segments)

text \<open>
  Claim C3 as stated fails: with the context name \<open>default\<close> (the default of the
  \<open>--context\<close> flag) every \<open>default\<close> of the document is still there after the rewrite.
\<close>

theorem rewrite_leaves_default:
  "rewriteKubeconfig ''127.0.0.1 localhost default'' ''203.0.113.5'' ''default''
     = ''203.0.113.5 203.0.113.5 default''
   \<and> sublist ''default''
        (rewriteKubeconfig ''127.0.0.1 localhost default'' ''203.0.113.5'' ''default'')"
  by code_simp

text \<open>
  Claim C9, as amended. The rewrite is a single left-to-right pass: when no token starts
  inside the bytes \<open>u\<close> that precede a token occurrence, the output is \<open>u\<close>, then the
  replacement value exactly as given, then the rewrite of what follows the occurrence in
  the input. The replacement value is not scanned again, so a token inside it stays in
  the output.
\<close>

theorem rewrite_single_pass:
  assumes "unmatched u (tok @ v)"
    and "(tok, new) \<in> {(''127.0.0.1'', ip), (''localhost'', ip),
                        (''default'', if context = [] then ''default'' else context)}"
  shows "rewriteKubeconfig (u @ tok @ v) ip context = u @ new @ rewriteKubeconfig v ip context"
proof -
  let ?c = "if context = [] then ''default'' else context"
  let ?ps = "[(tok_loopback, ip), (tok_localhost, ip), (tok_default, ?c)]"
  have "replace_from ?ps (u @ tok @ v) False = u @ replace_from ?ps (tok @ v) False"
    using assms(1) by (rule replace_unmatched_prefix)
  moreover have "replace_from ?ps (tok @ v) False = new @ replace_from ?ps v False"
    using assms(2) replace_token [of ip ?c v False]
    by (auto simp: tok_loopback_def tok_localhost_def tok_default_def)
  ultimately show ?thesis
    by (simp add: rewrite_replace_from)
qed

theorem rewrite_single_pass_witness:
  "unmatched ''server: '' (''localhost'' @ '' default'')
   \<and> rewriteKubeconfig (''server: '' @ ''localhost'' @ '' default'') ''default'' ''localhost''
       = ''server: default localhost''"
proof -
  have h: "unmatched ''server: '' (''localhost'' @ '' default'')"
    by (simp add: match_at_def tok_loopback_def tok_localhost_def tok_default_def)
  have r: "rewriteKubeconfig '' default'' ''default'' ''localhost'' = '' localhost''"
    by code_simp
  show ?thesis
    using h r rewrite_single_pass [OF h, of "''default''" "''default''" "''localhost''"]
    by simp
qed

text \<open>
  Claim C9 as stated fails in its last part: the output can contain a token although no
  replacement value contains one. Here the end of the target address and the bytes left
  over from an overlapping occurrence join to \<open>127.0.0.1\<close>.
\<close>

theorem rewrite_token_across_join:
  "sublist ''127.0.0.1'' (rewriteKubeconfig ''127.0.0.127.0.0.1'' ''10.0.0.1'' ''prod'')
   \<and> \<not> has_token ''10.0.0.1'' \<and> \<not> has_token ''prod''"
  by (simp add: has_token_def tok_loopback_def tok_localhost_def tok_default_def) code_simp

section \<open>Properties of credential resolution and of the written files\<close>

lemma blob_matches_iff: "blob_matches keys parsedkey \<longleftrightarrow> parsedkey \<in> Blob ` set keys"
  by (induction keys) auto

lemma new_events_log [simp]: "new_events w (log_event e w) = [e]"
  by (simp add: new_events_def log_event_def)

text \<open>
  Claim C4. When the private-key file is read and its parse fails with an error other
  than the missing-passphrase error, \<open>loadAuthMethod\<close> returns \<open>KeyParseError\<close> at once:
  reading the key file is its only step; the agent is not dialled, the public-key file is
  not read and no passphrase is asked for.
\<close>

theorem corrupt_key_fails_immediately:
  assumes "privateKeyPath \<noteq> []"
    and "fs w privateKeyPath = Some f"
    and "parsePrivateKey env (content f) = ParseFailure"
  shows "loadAuthMethod env privateKeyPath w =
           ((None, NoopClose, Some KeyParseError), log_event (ReadFile privateKeyPath) w)
         \<and> new_events w (snd (loadAuthMethod env privateKeyPath w)) = [ReadFile privateKeyPath]
         \<and> filter is_dial (new_events w (snd (loadAuthMethod env privateKeyPath w))) = []
         \<and> ReadFile (privateKeyPath @ ''.pub'')
               \<notin> set (new_events w (snd (loadAuthMethod env privateKeyPath w)))
         \<and> filter is_prompt (new_events w (snd (loadAuthMethod env privateKeyPath w))) = []"
  using assms by (simp add: loadAuthMethod_def readFile_def)

lemma sshAgent_result:
  "fst (sshAgent env pub w) =
     (if agent_offers env pub w
      then (Some (AgentSigners (next_conn w)), AgentConnClose (next_conn w))
      else (None, if agent_socket env \<and> agent_identities env \<noteq> None \<and> agent_identities env \<noteq> Some []
                     \<and> fs w pub \<noteq> None
                     \<and> (case fs w pub of None \<Rightarrow> False | Some f \<Rightarrow> parseAuthorizedKey env (content f) \<noteq> None)
                  then NoopClose
                  else if agent_socket env then AgentConnClose (next_conn w) else NoopClose))"
  by (auto simp: sshAgent_def agent_offers_def dialAgent_def agentList_def readFile_def
      log_event_def Let_def blob_matches_iff split: option.splits)

lemma sshAgent_trace:
  "trace (snd (sshAgent env pub w)) = trace w @ fallback_steps env pub w"
  by (auto simp: sshAgent_def fallback_steps_def dialAgent_def agentList_def readFile_def
      log_event_def Let_def split: option.splits)

lemma sshAgent_fs: "fs (snd (sshAgent env pub w)) = fs w"
  by (auto simp: sshAgent_def dialAgent_def agentList_def readFile_def
      log_event_def Let_def split: option.splits)

lemma sshAgent_conns:
  "open_conns (snd (sshAgent env pub w)) =
     (if agent_socket env then next_conn w # open_conns w else open_conns w)"
  by (auto simp: sshAgent_def dialAgent_def agentList_def readFile_def
      log_event_def Let_def split: option.splits)

lemma agent_offers_log [simp]: "agent_offers env pub (log_event e w) = agent_offers env pub w"
  by (simp add: agent_offers_def log_event_def cong: option.case_cong)

lemma fallback_steps_log [simp]: "fallback_steps env pub (log_event e w) = fallback_steps env pub w"
  by (simp add: fallback_steps_def log_event_def)

lemma new_events_append: "trace w' = trace w @ es \<Longrightarrow> new_events w w' = es"
  by (simp add: new_events_def)

lemma run_close_trace:
  "trace (run_close close w) =
     trace w @ (case close of NoopClose \<Rightarrow> [] | AgentConnClose conn \<Rightarrow> [ConnClose conn])"
  by (cases close) (simp_all add: log_event_def)

lemma loadAuthMethod_passphrase:
  assumes "privateKeyPath \<noteq> []"
    and "fs w privateKeyPath = Some f"
    and "parsePrivateKey env (content f) = PassphraseMissing"
  shows "loadAuthMethod env privateKeyPath w =
     (case sshAgent env (privateKeyPath @ ''.pub'') (log_event (ReadFile privateKeyPath) w) of
        ((Some agent, close), w2) \<Rightarrow> ((Some agent, close, None), w2)
      | ((None, close), w2) \<Rightarrow>
          (after_prompt (parsePrivateKeyWithPassphrase env (content f) (password_input env)),
           run_close close (log_event (ReadPassword privateKeyPath) w2)))"
  using assms
  by (simp add: loadAuthMethod_def readFile_def readPassword_def after_prompt_def
      split: prod.splits option.splits)

lemma loadAuthMethod_offered:
  assumes "privateKeyPath \<noteq> []"
    and "fs w privateKeyPath = Some f"
    and "parsePrivateKey env (content f) = PassphraseMissing"
    and "agent_offers env (privateKeyPath @ ''.pub'') w"
  shows "fst (loadAuthMethod env privateKeyPath w) =
           (Some (AgentSigners (next_conn w)), AgentConnClose (next_conn w), None)"
    and "trace (snd (loadAuthMethod env privateKeyPath w)) =
           trace w @ ReadFile privateKeyPath # fallback_steps env (privateKeyPath @ ''.pub'') w"
proof -
  let ?w1 = "log_event (ReadFile privateKeyPath) w"
  let ?r = "sshAgent env (privateKeyPath @ ''.pub'') ?w1"
  have r: "fst ?r = (Some (AgentSigners (next_conn w)), AgentConnClose (next_conn w))"
    using assms(4) by (simp add: sshAgent_result) (simp add: log_event_def)
  have t: "trace (snd ?r) = trace w @ ReadFile privateKeyPath # fallback_steps env (privateKeyPath @ ''.pub'') w"
    by (simp add: sshAgent_trace) (simp add: log_event_def)
  obtain a c w2 where e: "?r = ((a, c), w2)"
    by (metis surj_pair)
  show "fst (loadAuthMethod env privateKeyPath w) =
           (Some (AgentSigners (next_conn w)), AgentConnClose (next_conn w), None)"
    using r e by (simp add: loadAuthMethod_passphrase [OF assms(1-3)])
  show "trace (snd (loadAuthMethod env privateKeyPath w)) =
           trace w @ ReadFile privateKeyPath # fallback_steps env (privateKeyPath @ ''.pub'') w"
    using r t e by (simp add: loadAuthMethod_passphrase [OF assms(1-3)])
qed

lemma loadAuthMethod_not_offered:
  assumes "privateKeyPath \<noteq> []"
    and "fs w privateKeyPath = Some f"
    and "parsePrivateKey env (content f) = PassphraseMissing"
    and "\<not> agent_offers env (privateKeyPath @ ''.pub'') w"
  shows "fst (loadAuthMethod env privateKeyPath w) =
           after_prompt (parsePrivateKeyWithPassphrase env (content f) (password_input env))"
    and "\<exists>closing. trace (snd (loadAuthMethod env privateKeyPath w)) =
           trace w @ ReadFile privateKeyPath # fallback_steps env (privateKeyPath @ ''.pub'') w
             @ ReadPassword privateKeyPath # closing
           \<and> filter is_prompt closing = []"
proof -
  let ?w1 = "log_event (ReadFile privateKeyPath) w"
  let ?r = "sshAgent env (privateKeyPath @ ''.pub'') ?w1"
  obtain a c w2 where e: "?r = ((a, c), w2)"
    by (metis surj_pair)
  have "fst (fst ?r) = None"
    using assms(4) by (simp add: sshAgent_result)
  with e have a: "a = None" by simp
  have "trace (snd ?r) = trace w @ ReadFile privateKeyPath # fallback_steps env (privateKeyPath @ ''.pub'') w"
    by (simp add: sshAgent_trace) (simp add: log_event_def)
  with e have t: "trace w2 = trace w @ ReadFile privateKeyPath # fallback_steps env (privateKeyPath @ ''.pub'') w"
    by simp
  show "fst (loadAuthMethod env privateKeyPath w) =
           after_prompt (parsePrivateKeyWithPassphrase env (content f) (password_input env))"
    using a e by (simp add: loadAuthMethod_passphrase [OF assms(1-3)])
  show "\<exists>closing. trace (snd (loadAuthMethod env privateKeyPath w)) =
           trace w @ ReadFile privateKeyPath # fallback_steps env (privateKeyPath @ ''.pub'') w
             @ ReadPassword privateKeyPath # closing
           \<and> filter is_prompt closing = []"
    using a e t
    by (cases c) (simp_all add: loadAuthMethod_passphrase [OF assms(1-3)] log_event_def)
qed

lemma fallback_steps_no_prompt: "filter is_prompt (fallback_steps env pub w) = []"
  by (simp add: fallback_steps_def)

text \<open>
  Claim C5. For a private key that needs a passphrase, when the agent fallback offers
  nothing (the agent cannot be reached, or no identity matches), \<open>loadAuthMethod\<close> asks
  for the passphrase exactly once; if the key parses with the bytes entered it returns
  \<open>ssh.PublicKeys\<close> of the signer, and otherwise \<open>PassphraseParseError\<close>.
\<close>

theorem passphrase_prompt_once:
  assumes "privateKeyPath \<noteq> []"
    and "fs w privateKeyPath = Some f"
    and "parsePrivateKey env (content f) = PassphraseMissing"
    and "\<not> agent_offers env (privateKeyPath @ ''.pub'') w"
  shows "fst (loadAuthMethod env privateKeyPath w) =
           after_prompt (parsePrivateKeyWithPassphrase env (content f) (password_input env))
         \<and> length (filter is_prompt (new_events w (snd (loadAuthMethod env privateKeyPath w)))) = 1"
proof -
  obtain closing where t: "trace (snd (loadAuthMethod env privateKeyPath w)) =
           trace w @ ReadFile privateKeyPath # fallback_steps env (privateKeyPath @ ''.pub'') w
             @ ReadPassword privateKeyPath # closing" and c: "filter is_prompt closing = []"
    using loadAuthMethod_not_offered(2) [OF assms] by blast
  have "new_events w (snd (loadAuthMethod env privateKeyPath w)) =
          ReadFile privateKeyPath # fallback_steps env (privateKeyPath @ ''.pub'') w
             @ ReadPassword privateKeyPath # closing"
    using t by (rule new_events_append)
  then show ?thesis
    using c loadAuthMethod_not_offered(1) [OF assms]
    by (simp add: fallback_steps_no_prompt)
qed

text \<open>
  Claim C7. For a private key that needs a passphrase, the agent fallback dials the
  agent, lists its identities and reads the file \<open>privateKeyPath @ ".pub"\<close>, in this order
  and each step only if the one before succeeded. It returns the agent's signers exactly
  when the parsed public key, in binary form, is equal byte for byte to the blob of one of
  the identities (\<open>agent_offers\<close>); in every other case resolution does not fail but goes on
  to the passphrase prompt.
\<close>

theorem agent_fallback_subpath:
  assumes "privateKeyPath \<noteq> []"
    and "fs w privateKeyPath = Some f"
    and "parsePrivateKey env (content f) = PassphraseMissing"
  shows "(agent_offers env (privateKeyPath @ ''.pub'') w \<longrightarrow>
            fst (loadAuthMethod env privateKeyPath w) =
              (Some (AgentSigners (next_conn w)), AgentConnClose (next_conn w), None))
         \<and> (\<not> agent_offers env (privateKeyPath @ ''.pub'') w \<longrightarrow>
            fst (loadAuthMethod env privateKeyPath w) =
              after_prompt (parsePrivateKeyWithPassphrase env (content f) (password_input env))
            \<and> ReadPassword privateKeyPath
                \<in> set (new_events w (snd (loadAuthMethod env privateKeyPath w))))
         \<and> prefix (ReadFile privateKeyPath # fallback_steps env (privateKeyPath @ ''.pub'') w)
              (new_events w (snd (loadAuthMethod env privateKeyPath w)))"
proof (cases "agent_offers env (privateKeyPath @ ''.pub'') w")
  case True
  have "new_events w (snd (loadAuthMethod env privateKeyPath w)) =
          ReadFile privateKeyPath # fallback_steps env (privateKeyPath @ ''.pub'') w"
    using loadAuthMethod_offered(2) [OF assms True] by (rule new_events_append)
  then show ?thesis
    using True loadAuthMethod_offered(1) [OF assms True] by simp
next
  case False
  obtain closing where t: "trace (snd (loadAuthMethod env privateKeyPath w)) =
           trace w @ ReadFile privateKeyPath # fallback_steps env (privateKeyPath @ ''.pub'') w
             @ ReadPassword privateKeyPath # closing"
    using loadAuthMethod_not_offered(2) [OF assms False] by blast
  have "new_events w (snd (loadAuthMethod env privateKeyPath w)) =
          ReadFile privateKeyPath # fallback_steps env (privateKeyPath @ ''.pub'') w
             @ ReadPassword privateKeyPath # closing"
    using t by (rule new_events_append)
  then show ?thesis
    using False loadAuthMethod_not_offered(1) [OF assms False] by simp
qed

lemma writeConfig_trace: "trace (snd (writeConfig env name data s w)) = trace w"
  by (simp add: writeConfig_def WriteFile_def Let_def)

lemma mergeConfigs_trace: "trace (snd (mergeConfigs env lp doc w)) = trace w"
  by (auto simp: mergeConfigs_def TempFile_def writeConfig_def WriteFile_def Remove_def Let_def
      split: option.splits prod.splits bool.splits)

lemma obtainKubeconfig_trace:
  "trace (snd (obtainKubeconfig env op cmd ip ctx lp mrg w)) = trace w @ [Execute op cmd]"
proof -
  have m: "\<And>a d w0 e w2. mergeConfigs env a d w0 = (e, w2) \<Longrightarrow> trace w2 = trace w0"
    using mergeConfigs_trace by (metis snd_conv)
  show ?thesis
    by (auto simp: obtainKubeconfig_def execute_def log_event_def Let_def writeConfig_trace
        split: option.splits prod.splits sum.splits dest!: m)
qed

text \<open>
  Claim C6. With an empty private-key path and an agent socket that cannot be dialled,
  \<open>loadAuthMethod\<close> fails with \<open>AgentUnreachable\<close>; a remote install returns this error after
  the failed dial, and no run, remote or local, attempts an SSH connection.
\<close>

theorem no_agent_no_connection:
  assumes "flag_ssh_key fl = []" and "\<not> agent_socket env"
  shows "loadAuthMethod env (expandPath env (flag_ssh_key fl)) w =
           ((None, NoopClose, Some AgentUnreachable), log_event DialAgent w)
         \<and> (\<not> flag_local fl \<longrightarrow> runInstall env fl w = (Some AgentUnreachable, log_event DialAgent w))
         \<and> filter is_connect (new_events w (snd (runInstall env fl w))) = []"
proof -
  have l: "loadAuthMethod env (expandPath env (flag_ssh_key fl)) w =
           ((None, NoopClose, Some AgentUnreachable), log_event DialAgent w)"
    using assms by (simp add: loadAuthMethod_def expandPath_def dialAgent_def)
  have r: "\<not> flag_local fl \<Longrightarrow> runInstall env fl w = (Some AgentUnreachable, log_event DialAgent w)"
    using l by (simp add: runInstall_def)
  have "filter is_connect (new_events w (snd (runInstall env fl w))) = []"
  proof (cases "flag_local fl")
    case False
    then show ?thesis using r by simp
  next
    case True
    then have "\<exists>es. trace (snd (runInstall env fl w)) = trace w @ es \<and> filter is_connect es = []"
      by (auto simp: runInstall_def execute_def obtainKubeconfig_trace log_event_def
          split: option.splits)
    then show ?thesis
      by (auto simp: new_events_def)
  qed
  with l r show ?thesis by simp
qed

text \<open>
  Claim C10. In the agent fallback, when the agent is dialled, lists at least one
  identity, and the public-key file is read and parsed, but no identity's blob is equal
  to the public key, \<open>sshAgent\<close> returns the close function that does nothing. The deferred
  close of \<open>loadAuthMethod\<close> therefore does not close the dialled connection: it is still
  open when \<open>loadAuthMethod\<close> returns, and the close function handed to the caller does
  nothing either.
\<close>

theorem unmatched_agent_connection_left_open:
  assumes "privateKeyPath \<noteq> []"
    and "fs w privateKeyPath = Some f"
    and "parsePrivateKey env (content f) = PassphraseMissing"
    and "agent_socket env"
    and "agent_identities env = Some keys"
    and "keys \<noteq> []"
    and "fs w (privateKeyPath @ ''.pub'') = Some g"
    and "parseAuthorizedKey env (content g) = Some authkey"
    and "marshal env authkey \<notin> Blob ` set keys"
  shows "fst (sshAgent env (privateKeyPath @ ''.pub'') w) = (None, NoopClose)
         \<and> fst (snd (fst (loadAuthMethod env privateKeyPath w))) = NoopClose
         \<and> next_conn w \<in> set (open_conns (snd (loadAuthMethod env privateKeyPath w)))
         \<and> ConnClose (next_conn w) \<notin> set (new_events w (snd (loadAuthMethod env privateKeyPath w)))"
proof -
  let ?pub = "privateKeyPath @ ''.pub''"
  let ?w1 = "log_event (ReadFile privateKeyPath) w"
  have no: "\<not> agent_offers env ?pub w"
    using assms by (simp add: agent_offers_def)
  have s: "\<And>w0. fs w0 = fs w \<Longrightarrow> fst (sshAgent env ?pub w0) = (None, NoopClose)"
    using assms no by (simp add: sshAgent_result agent_offers_def)
  have "fst (sshAgent env ?pub ?w1) = (None, NoopClose)"
    using s [of ?w1] by (simp add: log_event_def)
  then obtain w2 where e: "sshAgent env ?pub ?w1 = ((None, NoopClose), w2)"
    by (cases "sshAgent env ?pub ?w1") auto
  have c: "open_conns w2 = next_conn w # open_conns w"
    using sshAgent_conns [of env ?pub ?w1] e assms(4) by (simp add: log_event_def)
  have t: "trace w2 = trace w @ ReadFile privateKeyPath # fallback_steps env ?pub w"
    using sshAgent_trace [of env ?pub ?w1] e by simp (simp add: log_event_def)
  have l: "loadAuthMethod env privateKeyPath w =
     (after_prompt (parsePrivateKeyWithPassphrase env (content f) (password_input env)),
      log_event (ReadPassword privateKeyPath) w2)"
    using e by (simp add: loadAuthMethod_passphrase [OF assms(1-3)])
  have n: "new_events w (log_event (ReadPassword privateKeyPath) w2) =
     ReadFile privateKeyPath # fallback_steps env ?pub w @ [ReadPassword privateKeyPath]"
    by (rule new_events_append) (simp add: t log_event_def)
  show ?thesis
    using s [of w] l c n
    by (auto simp: after_prompt_def log_event_def fallback_steps_def split: option.splits)
qed

text \<open>
  Claim C1, as amended. For every call of \<open>mergeConfigs\<close> in which the temporary file is
  created and written and the merge tool prints a document: if the removal succeeds,
  \<open>mergeConfigs\<close> returns the document and the temporary file no longer exists; if the
  removal fails, it returns \<open>TempCleanupError\<close> and the temporary file is still there.
\<close>

theorem merge_removes_temp_file:
  assumes "TempFile env w = (Some name, w1)"
    and "writeConfig env name k3sconfig True w1 = (None, w2)"
    and "kubectl env (''KUBECONFIG='' @ localKubeconfigPath @ '':'' @ name) (fs w2) = Some data"
  shows "(\<not> remove_fails env name \<longrightarrow>
            mergeConfigs env localKubeconfigPath k3sconfig w
              = (Inr data, w2\<lparr>fs := (fs w2)(name := None)\<rparr>)
            \<and> fs (snd (mergeConfigs env localKubeconfigPath k3sconfig w)) name = None)
         \<and> (remove_fails env name \<longrightarrow>
            mergeConfigs env localKubeconfigPath k3sconfig w = (Inl TempCleanupError, w2)
            \<and> fs (snd (mergeConfigs env localKubeconfigPath k3sconfig w)) name \<noteq> None)"
proof -
  have "fs w1 name \<noteq> None"
    using assms(1) by (auto simp: TempFile_def split: option.splits)
  then have "fs w2 name \<noteq> None"
    using assms(2) by (auto simp: writeConfig_def WriteFile_def Let_def split: if_splits)
  then show ?thesis
    using assms by (auto simp: mergeConfigs_def Remove_def Let_def)
qed

text \<open>
  Claim C2, as amended. When the merge tool has printed the merged document and the
  removal of the temporary file fails, \<open>mergeConfigs\<close> returns \<open>TempCleanupError\<close> and no
  document; \<open>obtainKubeconfig\<close> returns that error and does not write the output file.
\<close>

theorem cleanup_failure_discards_merge:
  assumes "execute env op getConfigcommand w = (Some res, w0)"
    and "TempFile env w0 = (Some name, w1)"
    and "writeConfig env name (rewriteKubeconfig (StdOut res) ip context) True w1 = (None, w2)"
    and "kubectl env (''KUBECONFIG='' @ Abs env localKubeconfig @ '':'' @ name) (fs w2) = Some data"
    and "remove_fails env name"
  shows "mergeConfigs env (Abs env localKubeconfig) (rewriteKubeconfig (StdOut res) ip context) w0
           = (Inl TempCleanupError, w2)
         \<and> obtainKubeconfig env op getConfigcommand ip context localKubeconfig True w
           = (Some TempCleanupError, w2)"
  using assms by (simp add: obtainKubeconfig_def mergeConfigs_def Remove_def Let_def)

lemma writeConfig_effect:
  "writeConfig env name data suppressMessage w = (None, w') \<Longrightarrow>
     w' = w\<lparr>fs := (fs w)(Abs env name \<mapsto>
            \<lparr>content = data,
             mode = (case fs w (Abs env name) of
                       None \<Rightarrow> and 384 (not (umask env)) | Some f \<Rightarrow> mode f)\<rparr>)\<rparr>"
  by (auto simp: writeConfig_def WriteFile_def Let_def split: if_splits)

lemma mergeConfigs_mode:
  assumes "mergeConfigs env lp doc w = (Inr merged, w')"
  shows "map_option mode (fs w' P) = map_option mode (fs w P)
         \<or> (fs w P = None \<and> (fs w' P = None \<or> map_option mode (fs w' P) = Some (and 384 (not (umask env)))))"
  using assms
  by (auto simp: mergeConfigs_def TempFile_def writeConfig_def WriteFile_def Remove_def Let_def
      find_Some_iff split: option.splits prod.splits if_splits bool.splits)

text \<open>
  Claim C8, as amended. A successful \<open>writeConfig\<close> changes one file only, the one at the
  absolute form of the given path: its content is the document; its mode is 0600 (384)
  less the umask when the write creates the file, and the mode it had when the file
  existed. After a successful \<open>obtainKubeconfig\<close>, merged or not, the file at the output path
  has mode 0600 less the umask when it did not exist before, and its former mode when it
  did.
\<close>

theorem final_write_mode:
  "(writeConfig env name data suppressMessage w = (None, w') \<longrightarrow>
      w' = w\<lparr>fs := (fs w)(Abs env name \<mapsto>
             \<lparr>content = data,
              mode = (case fs w (Abs env name) of
                        None \<Rightarrow> and 384 (not (umask env)) | Some f \<Rightarrow> mode f)\<rparr>)\<rparr>)
   \<and> (obtainKubeconfig env op getConfigcommand ip context localKubeconfig merge v = (None, v') \<longrightarrow>
      map_option mode (fs v' (Abs env (Abs env localKubeconfig)))
        = Some (case fs v (Abs env (Abs env localKubeconfig)) of
                  None \<Rightarrow> and 384 (not (umask env)) | Some f \<Rightarrow> mode f))"
proof (intro conjI impI)
  assume "writeConfig env name data suppressMessage w = (None, w')"
  then show "w' = w\<lparr>fs := (fs w)(Abs env name \<mapsto>
             \<lparr>content = data,
              mode = (case fs w (Abs env name) of
                        None \<Rightarrow> and 384 (not (umask env)) | Some f \<Rightarrow> mode f)\<rparr>)\<rparr>"
    by (rule writeConfig_effect)
next
  let ?P = "Abs env (Abs env localKubeconfig)"
  assume o: "obtainKubeconfig env op getConfigcommand ip context localKubeconfig merge v = (None, v')"
  then obtain res where x: "run_command env op getConfigcommand = Some res"
    by (auto simp: obtainKubeconfig_def execute_def split: option.splits)
  let ?v1 = "log_event (Execute op getConfigcommand) v"
  let ?doc = "rewriteKubeconfig (StdOut res) ip context"
  show "map_option mode (fs v' ?P)
        = Some (case fs v ?P of None \<Rightarrow> and 384 (not (umask env)) | Some f \<Rightarrow> mode f)"
  proof (cases merge)
    case False
    with o x have "writeConfig env (Abs env localKubeconfig) ?doc False ?v1 = (None, v')"
      by (simp add: obtainKubeconfig_def execute_def Let_def)
    from writeConfig_effect [OF this] show ?thesis
      by (simp add: log_event_def)
  next
    case True
    with o x obtain merged v2 where
      m: "mergeConfigs env (Abs env localKubeconfig) ?doc ?v1 = (Inr merged, v2)" and
      wr: "writeConfig env (Abs env localKubeconfig) merged False v2 = (None, v')"
      by (auto simp: obtainKubeconfig_def execute_def Let_def split: prod.splits sum.splits)
    from mergeConfigs_mode [OF m, of ?P] writeConfig_effect [OF wr] show ?thesis
      by (auto simp: log_event_def split: option.splits)
  qed
qed

lemmas example_defs = example_env_def example_world_def example_flags_def

text \<open>Claim C4 on the damaged key file of the example.\<close>

theorem corrupt_key_fails_immediately_witness:
  "''/home/u/.ssh/damaged'' \<noteq> []
   \<and> fs example_world ''/home/u/.ssh/damaged'' = Some \<lparr>content = ''not a key'', mode = 384\<rparr>
   \<and> parsePrivateKey example_env (content \<lparr>content = ''not a key'', mode = 384\<rparr>) = ParseFailure
   \<and> fst (loadAuthMethod example_env ''/home/u/.ssh/damaged'' example_world)
       = (None, NoopClose, Some KeyParseError)
   \<and> new_events example_world (snd (loadAuthMethod example_env ''/home/u/.ssh/damaged'' example_world))
       = [ReadFile ''/home/u/.ssh/damaged'']"
proof -
  have h1: "''/home/u/.ssh/damaged'' \<noteq> []" by simp
  have h2: "fs example_world ''/home/u/.ssh/damaged'' = Some \<lparr>content = ''not a key'', mode = 384\<rparr>"
    by (simp add: example_defs)
  have h3: "parsePrivateKey example_env (content \<lparr>content = ''not a key'', mode = 384\<rparr>) = ParseFailure"
    by (simp add: example_defs)
  show ?thesis
    using h1 h2 h3 corrupt_key_fails_immediately [OF h1 h2 h3] by simp
qed

text \<open>Claim C5 on the protected key of the example, with the right passphrase entered.\<close>

theorem passphrase_prompt_once_witness:
  "''/home/u/.ssh/id_rsa'' \<noteq> []
   \<and> fs example_world ''/home/u/.ssh/id_rsa'' = Some \<lparr>content = ''locked key'', mode = 384\<rparr>
   \<and> parsePrivateKey example_env (content \<lparr>content = ''locked key'', mode = 384\<rparr>) = PassphraseMissing
   \<and> \<not> agent_offers example_env (''/home/u/.ssh/id_rsa'' @ ''.pub'') example_world
   \<and> fst (loadAuthMethod example_env ''/home/u/.ssh/id_rsa'' example_world)
       = (Some (PublicKeys ''signer''), NoopClose, None)
   \<and> length (filter is_prompt
        (new_events example_world (snd (loadAuthMethod example_env ''/home/u/.ssh/id_rsa'' example_world)))) = 1"
proof -
  have h1: "''/home/u/.ssh/id_rsa'' \<noteq> []" by simp
  have h2: "fs example_world ''/home/u/.ssh/id_rsa'' = Some \<lparr>content = ''locked key'', mode = 384\<rparr>"
    by (simp add: example_defs)
  have h3: "parsePrivateKey example_env (content \<lparr>content = ''locked key'', mode = 384\<rparr>) = PassphraseMissing"
    by (simp add: example_defs)
  have h4: "\<not> agent_offers example_env (''/home/u/.ssh/id_rsa'' @ ''.pub'') example_world"
    by (simp add: example_defs agent_offers_def)
  have a: "after_prompt (parsePrivateKeyWithPassphrase example_env ''locked key''
             (password_input example_env))
           = (Some (PublicKeys ''signer''), NoopClose, None)"
    by (simp add: example_defs after_prompt_def)
  show ?thesis
    using h1 h2 h3 h4 passphrase_prompt_once [OF h1 h2 h3 h4] by (simp add: a)
qed

text \<open>Claim C6 on the example: no key path, no agent, a remote install.\<close>

theorem no_agent_no_connection_witness:
  "flag_ssh_key example_flags = [] \<and> \<not> agent_socket example_env
   \<and> \<not> flag_local example_flags
   \<and> fst (runInstall example_env example_flags example_world) = Some AgentUnreachable
   \<and> filter is_connect (new_events example_world (snd (runInstall example_env example_flags example_world))) = []"
proof -
  have h1: "flag_ssh_key example_flags = []" by (simp add: example_defs)
  have h2: "\<not> agent_socket example_env" by (simp add: example_defs)
  have h3: "\<not> flag_local example_flags" by (simp add: example_defs)
  show ?thesis
    using h1 h2 h3 no_agent_no_connection [OF h1 h2, of example_world] by simp
qed


text \<open>Claim C7 on the example, with an agent that holds the matching identity.\<close>

theorem agent_fallback_subpath_witness:
  "''/home/u/.ssh/id_rsa'' \<noteq> []
   \<and> fs example_world ''/home/u/.ssh/id_rsa'' = Some \<lparr>content = ''locked key'', mode = 384\<rparr>
   \<and> parsePrivateKey example_env (content \<lparr>content = ''locked key'', mode = 384\<rparr>) = PassphraseMissing
   \<and> agent_offers
         (example_env\<lparr>agent_socket := True,
            agent_identities := Some [\<lparr>Format = ''ssh-rsa'', Blob = ''AAAA'', Comment = ''u@host''\<rparr>]\<rparr>)
         (''/home/u/.ssh/id_rsa'' @ ''.pub'') example_world
   \<and> fst (loadAuthMethod
         (example_env\<lparr>agent_socket := True,
            agent_identities := Some [\<lparr>Format = ''ssh-rsa'', Blob = ''AAAA'', Comment = ''u@host''\<rparr>]\<rparr>)
         ''/home/u/.ssh/id_rsa'' example_world)
       = (Some (AgentSigners 0), AgentConnClose 0, None)
   \<and> prefix [ReadFile ''/home/u/.ssh/id_rsa'', DialAgent, AgentList 0,
               ReadFile ''/home/u/.ssh/id_rsa.pub'']
        (new_events example_world (snd (loadAuthMethod
           (example_env\<lparr>agent_socket := True,
              agent_identities := Some [\<lparr>Format = ''ssh-rsa'', Blob = ''AAAA'', Comment = ''u@host''\<rparr>]\<rparr>)
           ''/home/u/.ssh/id_rsa'' example_world)))"
proof -
  let ?env = "example_env\<lparr>agent_socket := True,
            agent_identities := Some [\<lparr>Format = ''ssh-rsa'', Blob = ''AAAA'', Comment = ''u@host''\<rparr>]\<rparr>"
  have h1: "''/home/u/.ssh/id_rsa'' \<noteq> []" by simp
  have h2: "fs example_world ''/home/u/.ssh/id_rsa'' = Some \<lparr>content = ''locked key'', mode = 384\<rparr>"
    by (simp add: example_defs)
  have h3: "parsePrivateKey ?env (content \<lparr>content = ''locked key'', mode = 384\<rparr>) = PassphraseMissing"
    by (simp add: example_defs)
  have h4: "agent_offers ?env (''/home/u/.ssh/id_rsa'' @ ''.pub'') example_world"
    by (simp add: example_defs agent_offers_def)
  have f: "fallback_steps ?env ''/home/u/.ssh/id_rsa.pub'' example_world
             = [DialAgent, AgentList 0, ReadFile ''/home/u/.ssh/id_rsa.pub'']"
    by (simp add: example_defs fallback_steps_def)
  have n: "next_conn example_world = 0"
    by (simp add: example_defs)
  have p: "parsePrivateKey example_env ''locked key'' = PassphraseMissing"
    by (simp add: example_defs)
  show ?thesis
    using h1 h2 h4 agent_fallback_subpath [OF h1 h2 h3] by (simp add: f n p)
qed

text \<open>Claim C10 on the example, with an agent that holds another identity only.\<close>

theorem unmatched_agent_connection_left_open_witness:
  "''/home/u/.ssh/id_rsa'' \<noteq> []
   \<and> fs example_world ''/home/u/.ssh/id_rsa'' = Some \<lparr>content = ''locked key'', mode = 384\<rparr>
   \<and> fs example_world (''/home/u/.ssh/id_rsa'' @ ''.pub'')
       = Some \<lparr>content = ''ssh-rsa AAAA'', mode = 420\<rparr>
   \<and> fst (sshAgent
         (example_env\<lparr>agent_socket := True,
            agent_identities := Some [\<lparr>Format = ''ssh-rsa'', Blob = ''BBBB'', Comment = ''other''\<rparr>]\<rparr>)
         (''/home/u/.ssh/id_rsa'' @ ''.pub'') example_world) = (None, NoopClose)
   \<and> 0 \<in> set (open_conns (snd (loadAuthMethod
         (example_env\<lparr>agent_socket := True,
            agent_identities := Some [\<lparr>Format = ''ssh-rsa'', Blob = ''BBBB'', Comment = ''other''\<rparr>]\<rparr>)
         ''/home/u/.ssh/id_rsa'' example_world)))
   \<and> ConnClose 0 \<notin> set (new_events example_world (snd (loadAuthMethod
         (example_env\<lparr>agent_socket := True,
            agent_identities := Some [\<lparr>Format = ''ssh-rsa'', Blob = ''BBBB'', Comment = ''other''\<rparr>]\<rparr>)
         ''/home/u/.ssh/id_rsa'' example_world)))"
proof -
  let ?keys = "[\<lparr>Format = ''ssh-rsa'', Blob = ''BBBB'', Comment = ''other''\<rparr>]"
  let ?env = "example_env\<lparr>agent_socket := True, agent_identities := Some ?keys\<rparr>"
  have h1: "''/home/u/.ssh/id_rsa'' \<noteq> []" by simp
  have h2: "fs example_world ''/home/u/.ssh/id_rsa'' = Some \<lparr>content = ''locked key'', mode = 384\<rparr>"
    by (simp add: example_defs)
  have h3: "parsePrivateKey ?env (content \<lparr>content = ''locked key'', mode = 384\<rparr>) = PassphraseMissing"
    by (simp add: example_defs)
  have h4: "agent_socket ?env" by simp
  have h5: "agent_identities ?env = Some ?keys" by simp
  have h6: "?keys \<noteq> []" by simp
  have h7: "fs example_world (''/home/u/.ssh/id_rsa'' @ ''.pub'')
              = Some \<lparr>content = ''ssh-rsa AAAA'', mode = 420\<rparr>"
    by (simp add: example_defs)
  have h8: "parseAuthorizedKey ?env (content \<lparr>content = ''ssh-rsa AAAA'', mode = 420\<rparr>) = Some ''AAAA''"
    by (simp add: example_defs)
  have h9: "marshal ?env ''AAAA'' \<notin> Blob ` set ?keys"
    by (simp add: example_defs)
  have n: "next_conn example_world = 0"
    by (simp add: example_defs)
  show ?thesis
    using h1 h2 h7 unmatched_agent_connection_left_open [OF h1 h2 h3 h4 h5 h6 h7 h8 h9]
    by (simp add: n)
qed

lemmas file_defs = mergeConfigs_def TempFile_def writeConfig_def WriteFile_def Remove_def
  Abs_def obtainKubeconfig_def execute_def log_event_def Let_def

text \<open>Claim C1, as amended, on the example, where the removal succeeds.\<close>

theorem merge_removes_temp_file_witness:
  "TempFile example_env example_world = (Some ''/tmp/k3s-temp-1'', snd (TempFile example_env example_world))
   \<and> writeConfig example_env ''/tmp/k3s-temp-1'' ''new document'' True
         (snd (TempFile example_env example_world))
       = (None, snd (writeConfig example_env ''/tmp/k3s-temp-1'' ''new document'' True
                       (snd (TempFile example_env example_world))))
   \<and> kubectl example_env (''KUBECONFIG='' @ ''/home/u/.kube/config'' @ '':'' @ ''/tmp/k3s-temp-1'')
         (fs (snd (writeConfig example_env ''/tmp/k3s-temp-1'' ''new document'' True
                     (snd (TempFile example_env example_world)))))
       = Some ''merged document''
   \<and> \<not> remove_fails example_env ''/tmp/k3s-temp-1''
   \<and> fst (mergeConfigs example_env ''/home/u/.kube/config'' ''new document'' example_world)
       = Inr ''merged document''
   \<and> fs (snd (mergeConfigs example_env ''/home/u/.kube/config'' ''new document'' example_world))
         ''/tmp/k3s-temp-1'' = None"
proof -
  let ?w1 = "snd (TempFile example_env example_world)"
  let ?w2 = "snd (writeConfig example_env ''/tmp/k3s-temp-1'' ''new document'' True ?w1)"
  have h1: "TempFile example_env example_world = (Some ''/tmp/k3s-temp-1'', ?w1)"
    by (simp add: prod_eq_iff example_defs TempFile_def)
  have h2: "writeConfig example_env ''/tmp/k3s-temp-1'' ''new document'' True ?w1 = (None, ?w2)"
    by (simp add: prod_eq_iff example_env_def writeConfig_def WriteFile_def Abs_def Let_def)
  have h3: "kubectl example_env (''KUBECONFIG='' @ ''/home/u/.kube/config'' @ '':'' @ ''/tmp/k3s-temp-1'')
              (fs ?w2) = Some ''merged document''"
    by (simp add: example_env_def)
  have h4: "\<not> remove_fails example_env ''/tmp/k3s-temp-1''"
    by (simp add: example_env_def)
  show ?thesis
    using h1 h2 h3 h4 merge_removes_temp_file [OF h1 h2 h3] by simp
qed

text \<open>
  Claim C1 as stated fails: when the removal of the temporary file fails, \<open>mergeConfigs\<close>
  returns an error and the temporary file still exists.
\<close>

theorem temp_file_left_when_removal_fails:
  "fst (mergeConfigs (example_env\<lparr>remove_fails := (\<lambda>name. True)\<rparr>)
          ''/home/u/.kube/config'' ''server: https://203.0.113.5:6443'' example_world)
     = Inl TempCleanupError
   \<and> fs (snd (mergeConfigs (example_env\<lparr>remove_fails := (\<lambda>name. True)\<rparr>)
          ''/home/u/.kube/config'' ''server: https://203.0.113.5:6443'' example_world))
        ''/tmp/k3s-temp-1'' \<noteq> None"
  by (simp add: example_defs file_defs)

text \<open>
  The returns of \<open>mergeConfigs\<close> after a failed write or a failed merge tool (lines 307 and
  320) come before the removal (line 324); the temporary file is left behind there as well.
\<close>

theorem merge_tool_failure_leaves_temp_file:
  "fst (mergeConfigs (example_env\<lparr>kubectl := (\<lambda>kubeconfigs files. None)\<rparr>)
          ''/home/u/.kube/config'' ''server: https://203.0.113.5:6443'' example_world)
     = Inl MergeToolError
   \<and> fs (snd (mergeConfigs (example_env\<lparr>kubectl := (\<lambda>kubeconfigs files. None)\<rparr>)
          ''/home/u/.kube/config'' ''server: https://203.0.113.5:6443'' example_world))
        ''/tmp/k3s-temp-1'' \<noteq> None"
  by (simp add: example_defs file_defs)

text \<open>Claim C2, as amended, on the example with a removal that fails.\<close>

theorem cleanup_failure_discards_merge_witness:
  "execute (example_env\<lparr>remove_fails := (\<lambda>name. True)\<rparr>) SSHOperator ''cat'' example_world
     = (Some \<lparr>StdOut = ''server: https://127.0.0.1:6443'', StdErr = []\<rparr>,
        log_event (Execute SSHOperator ''cat'') example_world)
   \<and> remove_fails (example_env\<lparr>remove_fails := (\<lambda>name. True)\<rparr>) ''/tmp/k3s-temp-1''
   \<and> fst (obtainKubeconfig (example_env\<lparr>remove_fails := (\<lambda>name. True)\<rparr>) SSHOperator ''cat''
          ''203.0.113.5'' ''prod'' ''/home/u/.kube/config'' True example_world)
       = Some TempCleanupError"
proof -
  let ?env = "example_env\<lparr>remove_fails := (\<lambda>name. True)\<rparr>"
  let ?res = "\<lparr>StdOut = ''server: https://127.0.0.1:6443'', StdErr = []\<rparr>"
  let ?w0 = "log_event (Execute SSHOperator ''cat'') example_world"
  let ?w1 = "snd (TempFile ?env ?w0)"
  let ?doc = "rewriteKubeconfig (StdOut ?res) ''203.0.113.5'' ''prod''"
  let ?w2 = "snd (writeConfig ?env ''/tmp/k3s-temp-1'' ?doc True ?w1)"
  have h1: "execute ?env SSHOperator ''cat'' example_world = (Some ?res, ?w0)"
    by (simp add: example_env_def execute_def)
  have h2: "TempFile ?env ?w0 = (Some ''/tmp/k3s-temp-1'', ?w1)"
    by (simp add: prod_eq_iff example_defs TempFile_def log_event_def)
  have h3: "writeConfig ?env ''/tmp/k3s-temp-1'' ?doc True ?w1 = (None, ?w2)"
    by (simp add: prod_eq_iff example_env_def writeConfig_def WriteFile_def Abs_def Let_def)
  have h4: "kubectl ?env (''KUBECONFIG='' @ Abs ?env ''/home/u/.kube/config'' @ '':'' @ ''/tmp/k3s-temp-1'')
              (fs ?w2) = Some ''merged document''"
    by (simp add: example_env_def)
  have h5: "remove_fails ?env ''/tmp/k3s-temp-1''"
    by simp
  show ?thesis
    using h1 h5 cleanup_failure_discards_merge [OF h1 h2 h3 h4 h5] by simp
qed

text \<open>
  Claim C2 as stated fails: the merge tool printed the merged document, the removal
  failed, and \<open>mergeConfigs\<close> does not return the document; the kubeconfig at the output
  path keeps its old content.
\<close>

theorem merged_bytes_lost_when_removal_fails:
  "kubectl (example_env\<lparr>remove_fails := (\<lambda>name. True)\<rparr>)
      (''KUBECONFIG='' @ ''/home/u/.kube/config'' @ '':'' @ ''/tmp/k3s-temp-1'') Map.empty
     = Some ''merged document''
   \<and> fst (mergeConfigs (example_env\<lparr>remove_fails := (\<lambda>name. True)\<rparr>)
          ''/home/u/.kube/config'' ''new document'' example_world)
       \<noteq> Inr ''merged document''
   \<and> map_option content
        (fs (snd (obtainKubeconfig (example_env\<lparr>remove_fails := (\<lambda>name. True)\<rparr>) SSHOperator
                    ''cat'' ''203.0.113.5'' ''prod'' ''/home/u/.kube/config'' True example_world))
           ''/home/u/.kube/config'')
       = Some ''old document''"
  by (simp add: example_defs file_defs)

text \<open>
  Claim C8 as stated fails: written over an existing kubeconfig of mode 0644 (420), the
  output file still has mode 0644, not 0600 (384).
\<close>

theorem existing_file_keeps_mode:
  "map_option mode (fs example_world ''/home/u/.kube/config'') = Some 420
   \<and> fst (writeConfig example_env ''/home/u/.kube/config'' ''new document'' False example_world) = None
   \<and> map_option mode
        (fs (snd (writeConfig example_env ''/home/u/.kube/config'' ''new document'' False example_world))
           ''/home/u/.kube/config'')
       = Some 420
   \<and> (420 :: 32 word) \<noteq> 384"
  by (simp add: example_defs file_defs)

text \<open>Claim C8, as amended, on the example: a new file, umask 022, mode 0600.\<close>

theorem final_write_mode_witness:
  "writeConfig example_env ''kubeconfig'' ''new document'' False example_world
     = (None, snd (writeConfig example_env ''kubeconfig'' ''new document'' False example_world))
   \<and> obtainKubeconfig example_env SSHOperator ''cat'' ''203.0.113.5'' ''prod'' ''kubeconfig'' False example_world
     = (None, snd (obtainKubeconfig example_env SSHOperator ''cat'' ''203.0.113.5'' ''prod''
                     ''kubeconfig'' False example_world))
   \<and> map_option mode
        (fs (snd (writeConfig example_env ''kubeconfig'' ''new document'' False example_world))
           ''kubeconfig'') = Some 384
   \<and> map_option mode
        (fs (snd (obtainKubeconfig example_env SSHOperator ''cat'' ''203.0.113.5'' ''prod''
                    ''kubeconfig'' False example_world)) ''kubeconfig'') = Some 384"
proof -
  let ?w' = "snd (writeConfig example_env ''kubeconfig'' ''new document'' False example_world)"
  let ?v' = "snd (obtainKubeconfig example_env SSHOperator ''cat'' ''203.0.113.5'' ''prod''
                     ''kubeconfig'' False example_world)"
  have h1: "writeConfig example_env ''kubeconfig'' ''new document'' False example_world = (None, ?w')"
    by (simp add: prod_eq_iff example_env_def writeConfig_def WriteFile_def Abs_def Let_def)
  have h2: "obtainKubeconfig example_env SSHOperator ''cat'' ''203.0.113.5'' ''prod'' ''kubeconfig''
              False example_world = (None, ?v')"
    by (simp add: prod_eq_iff example_env_def obtainKubeconfig_def execute_def writeConfig_def
        WriteFile_def Abs_def Let_def)
  have a: "Abs example_env ''kubeconfig'' = ''kubeconfig''"
    by (simp add: example_env_def Abs_def)
  have u: "umask example_env = 18"
    by (simp add: example_env_def)
  have n: "fs example_world ''kubeconfig'' = None"
    by (simp add: example_world_def)
  from final_write_mode [of example_env "''kubeconfig''" "''new document''" False example_world ?w'
      SSHOperator "''cat''" "''203.0.113.5''" "''prod''" "''kubeconfig''" False example_world ?v']
  have "?w' = example_world\<lparr>fs := (fs example_world)(''kubeconfig'' \<mapsto>
             \<lparr>content = ''new document'', mode = 384\<rparr>)\<rparr>"
    and "map_option mode (fs ?v' ''kubeconfig'') = Some 384"
    using h1 h2 by (simp_all add: a u n)
  then show ?thesis
    using h1 h2 by simp
qed

end
